theory Spec2Isabelle
  imports Complex_Main "HOL-Library.Sublist"
begin

section \<open>JavaScript values used by the server\<close>

text \<open>
  Strings are kept as the bytes of their UTF-8 encoding, which is what travels in the
  JSON bodies of the protocol. Template literals only concatenate, and concatenation
  is the same on bytes and on code units.
\<close>

definition digit_char :: "int \<Rightarrow> char" where
  "digit_char d = ''0123456789'' ! nat d"

text \<open>The decimal digits of a non-negative integer.\<close>

function decimal :: "int \<Rightarrow> string" where
  "decimal n = (if n < 10 then [digit_char n] else decimal (n div 10) @ [digit_char (n mod 10)])"
  by pat_completeness auto
termination
  by (relation "measure nat") auto

declare decimal.simps [simp del]

subsection \<open>Numbers\<close>

text \<open>
  A number of JavaScript: an IEEE 754 double. A finite one is \<open>m * 2 ^ e\<close>, kept with
  \<open>m\<close> odd (zero is \<open>Dbl 0 0\<close>), so that equal numbers are equal terms. The two zeros
  are one value here: they print alike and compare equal, and no division by a zero is
  reached in the handlers.
\<close>

datatype jsnum = Dbl int int | PosInf | NegInf | NaN

text \<open>The number of binary digits and of decimal digits of a positive integer.\<close>

function bitlen :: "int \<Rightarrow> int" where
  "bitlen n = (if n \<le> 0 then 0 else bitlen (n div 2) + 1)"
  by pat_completeness auto
termination
  by (relation "measure nat") auto

declare bitlen.simps [simp del]

function declen :: "int \<Rightarrow> int" where
  "declen n = (if n \<le> 0 then 0 else declen (n div 10) + 1)"
  by pat_completeness auto
termination
  by (relation "measure nat") auto

declare declen.simps [simp del]

text \<open>\<open>m * 2 ^ e\<close> with the factors of two moved from \<open>m\<close> into \<open>e\<close>.\<close>

function odd_part :: "int \<Rightarrow> int \<Rightarrow> jsnum" where
  "odd_part m e =
     (if m = 0 then Dbl 0 0 else if even m then odd_part (m div 2) (e + 1) else Dbl m e)"
  by pat_completeness auto
termination
  by (relation "measure (\<lambda>(m, e). nat \<bar>m\<bar>)") auto

declare odd_part.simps [simp del]

text \<open>\<open>b ^ k \<le> p / q\<close> for positive \<open>p\<close> and \<open>q\<close>, in integers.\<close>

definition pow_le :: "int \<Rightarrow> int \<Rightarrow> int \<Rightarrow> int \<Rightarrow> bool" where
  "pow_le b k p q = (if 0 \<le> k then q * b ^ nat k \<le> p else q \<le> p * b ^ nat (- k))"

text \<open>The integer part of the logarithm of \<open>p / q\<close> to base 2 and to base 10.\<close>

definition ilog2 :: "int \<Rightarrow> int \<Rightarrow> int" where
  "ilog2 p q =
     (let k = bitlen p - bitlen q
      in if pow_le 2 k p q then k else k - 1)"

definition ilog10 :: "int \<Rightarrow> int \<Rightarrow> int" where
  "ilog10 p q =
     (let k = declen p - declen q
      in if pow_le 10 k p q then k else k - 1)"

text \<open>The integer nearest to \<open>p / q\<close> (\<open>0 \<le> p\<close>, \<open>0 < q\<close>), a tie going to the even one.\<close>

definition nearest_even :: "int \<Rightarrow> int \<Rightarrow> int" where
  "nearest_even p q =
     (let d = p div q; r = p mod q
      in if 2 * r < q then d else if q < 2 * r then d + 1 else if even d then d else d + 1)"

text \<open>
  The double nearest to \<open>p / q\<close> for \<open>0 < q\<close>, rounding to nearest, ties to even: 53
  bits of significand, the least exponent \<open>- 1074\<close>, and overflow to an infinity.
\<close>

definition fl :: "int \<Rightarrow> int \<Rightarrow> jsnum" where
  "fl p q =
     (if p = 0 then Dbl 0 0
      else
        let a = \<bar>p\<bar>;
            e = max (ilog2 a q - 52) (- 1074);
            m = (if 0 \<le> e then nearest_even a (q * 2 ^ nat e)
                 else nearest_even (a * 2 ^ nat (- e)) q)
        in if 971 < e \<or> (e = 971 \<and> 2 ^ 53 \<le> m) then (if 0 < p then PosInf else NegInf)
           else odd_part (if 0 < p then m else - m) e)"

text \<open>A finite double as a fraction with a positive denominator.\<close>

definition fraction :: "int \<Rightarrow> int \<Rightarrow> int \<times> int" where
  "fraction m e = (if 0 \<le> e then (m * 2 ^ nat e, 1) else (m, 2 ^ nat (- e)))"

text \<open>An integer literal.\<close>

definition num_of_int :: "int \<Rightarrow> jsnum" where
  "num_of_int i = fl i 1"

text \<open>The arithmetic operators \<^verbatim>\<open>+\<close>, \<^verbatim>\<open>-\<close>, \<^verbatim>\<open>*\<close> and \<^verbatim>\<open>/\<close> on numbers.\<close>

fun js_neg :: "jsnum \<Rightarrow> jsnum" where
  "js_neg (Dbl m e) = Dbl (- m) e"
| "js_neg PosInf = NegInf"
| "js_neg NegInf = PosInf"
| "js_neg NaN = NaN"

fun js_add :: "jsnum \<Rightarrow> jsnum \<Rightarrow> jsnum" where
  "js_add NaN y = NaN"
| "js_add x NaN = NaN"
| "js_add PosInf NegInf = NaN"
| "js_add NegInf PosInf = NaN"
| "js_add PosInf y = PosInf"
| "js_add NegInf y = NegInf"
| "js_add x PosInf = PosInf"
| "js_add x NegInf = NegInf"
| "js_add (Dbl m1 e1) (Dbl m2 e2) =
     (let e = min e1 e2; s = m1 * 2 ^ nat (e1 - e) + m2 * 2 ^ nat (e2 - e);
          (p, q) = fraction s e
      in fl p q)"

definition js_sub :: "jsnum \<Rightarrow> jsnum \<Rightarrow> jsnum" where
  "js_sub x y = js_add x (js_neg y)"

text \<open>The sign of a number that is not NaN: \<open>-1\<close>, \<open>0\<close> or \<open>1\<close>.\<close>

fun js_sign :: "jsnum \<Rightarrow> int" where
  "js_sign (Dbl m e) = sgn m"
| "js_sign PosInf = 1"
| "js_sign NegInf = - 1"
| "js_sign NaN = 0"

definition signed_inf :: "int \<Rightarrow> jsnum" where
  "signed_inf s = (if s = 0 then NaN else if 0 < s then PosInf else NegInf)"

fun js_mul :: "jsnum \<Rightarrow> jsnum \<Rightarrow> jsnum" where
  "js_mul NaN y = NaN"
| "js_mul x NaN = NaN"
| "js_mul (Dbl m1 e1) (Dbl m2 e2) = (let (p, q) = fraction (m1 * m2) (e1 + e2) in fl p q)"
| "js_mul x y = signed_inf (js_sign x * js_sign y)"

text \<open>
  Division. A quotient by zero takes the zero for the positive one; the handlers test
  the divisor before they divide.
\<close>

fun js_div :: "jsnum \<Rightarrow> jsnum \<Rightarrow> jsnum" where
  "js_div NaN y = NaN"
| "js_div x NaN = NaN"
| "js_div (Dbl m1 e1) (Dbl m2 e2) =
     (if m2 = 0 then signed_inf (sgn m1)
      else
        let (p, q) = fraction m1 (e1 - e2)
        in if 0 < m2 then fl p (q * m2) else fl (- p) (q * (- m2)))"
| "js_div (Dbl m e) y = Dbl 0 0"
| "js_div x (Dbl m e) = signed_inf (js_sign x * (if m < 0 then - 1 else 1))"
| "js_div x y = NaN"

text \<open>\<^verbatim>\<open>x === 0\<close>.\<close>

definition is_zero :: "jsnum \<Rightarrow> bool" where
  "is_zero x = (case x of Dbl m e \<Rightarrow> m = 0 | _ \<Rightarrow> False)"

text \<open>\<^verbatim>\<open>x < y\<close>, false when an operand is NaN.\<close>

fun js_less :: "jsnum \<Rightarrow> jsnum \<Rightarrow> bool" where
  "js_less NaN y = False"
| "js_less x NaN = False"
| "js_less x NegInf = False"
| "js_less PosInf y = False"
| "js_less NegInf y = True"
| "js_less x PosInf = True"
| "js_less (Dbl m1 e1) (Dbl m2 e2) =
     (let e = min e1 e2 in m1 * 2 ^ nat (e1 - e) < m2 * 2 ^ nat (e2 - e))"

subsection \<open>Number to string\<close>

text \<open>The decimal \<open>s * 10 ^ t\<close> as a fraction, and whether it rounds to the double \<open>p / q\<close>.\<close>

definition decimal_value :: "int \<Rightarrow> int \<Rightarrow> int \<times> int" where
  "decimal_value s t = (if 0 \<le> t then (s * 10 ^ nat t, 1) else (s, 10 ^ nat (- t)))"

definition rounds_to :: "int \<Rightarrow> int \<Rightarrow> int \<Rightarrow> int \<Rightarrow> bool" where
  "rounds_to s t p q = (let (a, b) = decimal_value s t in fl a b = fl p q)"

text \<open>
  Whether \<open>lo * 10 ^ t\<close> is nearer to \<open>p / q\<close> than \<open>(lo + 1) * 10 ^ t\<close> is, or as near
  with \<open>lo\<close> even.
\<close>

definition prefer_low :: "int \<Rightarrow> int \<Rightarrow> int \<Rightarrow> int \<Rightarrow> bool" where
  "prefer_low lo t p q =
     (let (a, b) = decimal_value (2 * lo + 1) t
      in 2 * p * b < a * q \<or> (2 * p * b = a * q \<and> even lo))"

text \<open>
  The digits \<open>s\<close> and the exponent \<open>n\<close> of the shortest decimal \<open>s * 10 ^ (n - k)\<close>, with
  \<open>k\<close> digits, that rounds to the double \<open>p / q > 0\<close>: \<open>k\<close> is tried from the given one on,
  and 17 digits are enough for every double.
\<close>

fun shortest :: "nat \<Rightarrow> nat \<Rightarrow> int \<Rightarrow> int \<Rightarrow> int \<Rightarrow> int \<times> int" where
  "shortest 0 k n p q = (0, n)"
| "shortest (Suc fuel) k n p q =
     (let t = n - int k;
          lo = (if 0 \<le> t then p div (q * 10 ^ nat t) else (p * 10 ^ nat (- t)) div q);
          ok_lo = (10 ^ (k - 1) \<le> lo \<and> rounds_to lo t p q);
          ok_hi = rounds_to (lo + 1) t p q;
          s = (if ok_lo \<and> (\<not> ok_hi \<or> prefer_low lo t p q) then lo else lo + 1)
      in if ok_lo \<or> ok_hi
         then (if s = 10 ^ k then (10 ^ (k - 1), n + 1) else (s, n))
         else shortest fuel (Suc k) n p q)"

text \<open>
  The text of a positive finite double in a template literal: plain digits up to 21
  integer digits, a leading \<^verbatim>\<open>0.\<close> down to \<open>10 ^ - 6\<close>, exponent notation otherwise.
\<close>

definition positive_to_string :: "int \<Rightarrow> int \<Rightarrow> string" where
  "positive_to_string m e =
     (let (p, q) = fraction m e;
          (s, n) = shortest 17 1 (ilog10 p q + 1) p q;
          ds = decimal s;
          k = int (length ds)
      in if k \<le> n \<and> n \<le> 21 then ds @ replicate (nat (n - k)) CHR ''0''
         else if 0 < n \<and> n \<le> 21 then take (nat n) ds @ ''.'' @ drop (nat n) ds
         else if - 6 < n \<and> n \<le> 0 then ''0.'' @ replicate (nat (- n)) CHR ''0'' @ ds
         else
           (let x = n - 1;
                ex = (if x < 0 then ''-'' else ''+'') @ decimal \<bar>x\<bar>
            in if k = 1 then ds @ ''e'' @ ex
               else take 1 ds @ ''.'' @ drop 1 ds @ ''e'' @ ex))"

fun js_to_string :: "jsnum \<Rightarrow> string" where
  "js_to_string NaN = ''NaN''"
| "js_to_string PosInf = ''Infinity''"
| "js_to_string NegInf = ''-Infinity''"
| "js_to_string (Dbl m e) =
     (if m = 0 then ''0''
      else if m < 0 then ''-'' @ positive_to_string (- m) e
      else positive_to_string m e)"

text \<open>\<^verbatim>\<open>Math.round\<close> (a tie goes up) and \<^verbatim>\<open>Math.floor\<close>.\<close>

fun Math_round :: "jsnum \<Rightarrow> jsnum" where
  "Math_round (Dbl m e) = (let (p, q) = fraction m e in num_of_int ((2 * p + q) div (2 * q)))"
| "Math_round x = x"

fun Math_floor :: "jsnum \<Rightarrow> jsnum" where
  "Math_floor (Dbl m e) = (let (p, q) = fraction m e in num_of_int (p div q))"
| "Math_floor x = x"

text \<open>
  \<^verbatim>\<open>x.toFixed(f)\<close>: the integer \<open>n\<close> with \<open>n / 10 ^ f\<close> nearest to \<open>x\<close> (the larger of two),
  printed with \<open>f\<close> digits after the point.
\<close>

definition fixed_digits :: "nat \<Rightarrow> int \<Rightarrow> int \<Rightarrow> string" where
  "fixed_digits f p q =
     (let n = (2 * p * 10 ^ f + q) div (2 * q);
          ds = decimal n;
          padded = replicate (Suc f - length ds) CHR ''0'' @ ds;
          k = length padded
      in if f = 0 then ds else take (k - f) padded @ ''.'' @ drop (k - f) padded)"

fun toFixed :: "nat \<Rightarrow> jsnum \<Rightarrow> string" where
  "toFixed f (Dbl m e) =
     (let (p, q) = fraction \<bar>m\<bar> e;
          body = (if 10 ^ 21 * q \<le> p then positive_to_string \<bar>m\<bar> e else fixed_digits f p q)
      in if m < 0 then ''-'' @ body else body)"
| "toFixed f x = js_to_string x"


subsection \<open>Values\<close>

text \<open>
  A value as the protocol carries it in \<^verbatim>\<open>params\<close>. An absent property or argument
  (\<^verbatim>\<open>undefined\<close>) is \<open>None\<close> of \<open>json option\<close>.
\<close>

datatype json =
    JNull
  | JBool bool
  | JNum jsnum
  | JStr string
  | JArr "json list"
  | JObj "(string \<times> json) list"

text \<open>\<^verbatim>\<open>v.k\<close> and \<^verbatim>\<open>v?.k\<close> for the property names the handlers read.\<close>

definition property :: "string \<Rightarrow> json option \<Rightarrow> json option" where
  "property k v = (case v of Some (JObj kvs) \<Rightarrow> map_of kvs k | _ \<Rightarrow> None)"

text \<open>\<^verbatim>\<open>typeof v\<close>.\<close>

definition typeof :: "json option \<Rightarrow> string" where
  "typeof v =
     (case v of
        None \<Rightarrow> ''undefined''
      | Some (JBool b) \<Rightarrow> ''boolean''
      | Some (JNum n) \<Rightarrow> ''number''
      | Some (JStr s) \<Rightarrow> ''string''
      | Some _ \<Rightarrow> ''object'')"

text \<open>Whether \<^verbatim>\<open>!v\<close> is false.\<close>

definition truthy :: "json option \<Rightarrow> bool" where
  "truthy v =
     (case v of
        None \<Rightarrow> False
      | Some JNull \<Rightarrow> False
      | Some (JBool b) \<Rightarrow> b
      | Some (JNum n) \<Rightarrow> \<not> is_zero n \<and> n \<noteq> NaN
      | Some (JStr s) \<Rightarrow> s \<noteq> []
      | Some _ \<Rightarrow> True)"

text \<open>\<^verbatim>\<open>xs.join(sep)\<close> on strings.\<close>

fun join :: "string \<Rightarrow> string list \<Rightarrow> string" where
  "join sep [] = []"
| "join sep [x] = x"
| "join sep (x # y # ys) = x @ sep @ join sep (y # ys)"

text \<open>
  The text of a value inside a template literal. In an array, \<^verbatim>\<open>null\<close> prints as the
  empty string.
\<close>

fun to_text :: "json \<Rightarrow> string" where
  "to_text JNull = ''null''"
| "to_text (JBool b) = (if b then ''true'' else ''false'')"
| "to_text (JNum n) = js_to_string n"
| "to_text (JStr s) = s"
| "to_text (JArr xs) = join '','' (map (\<lambda>x. if x = JNull then [] else to_text x) xs)"
| "to_text (JObj kvs) = ''[object Object]''"

text \<open>
  \<^verbatim>\<open>s.length\<close>, the number of UTF-16 code units, read off the UTF-8 bytes: a byte that
  continues a character counts nothing, and the first byte of a four-byte character
  counts two.
\<close>

definition code_units :: "char \<Rightarrow> nat" where
  "code_units c =
     (let b = of_char c :: nat
      in if b < 128 then 1 else if b < 192 then 0 else if b < 240 then 1 else 2)"

definition js_length :: "string \<Rightarrow> nat" where
  "js_length s = sum_list (map code_units s)"

text \<open>\<^verbatim>\<open>s.trim()\<close>, for the white space of ASCII.\<close>

definition is_space :: "char \<Rightarrow> bool" where
  "is_space c \<longleftrightarrow> c \<in> set [CHR '' '', CHR 0x09, CHR 0x0A, CHR 0x0B, CHR 0x0C, CHR 0x0D]"

definition trim :: "string \<Rightarrow> string" where
  "trim s = rev (dropWhile is_space (rev (dropWhile is_space s)))"

subsection \<open>JSON.stringify with an indentation of two spaces\<close>

definition hex_digit :: "nat \<Rightarrow> char" where
  "hex_digit d = ''0123456789abcdef'' ! d"

definition escape_char :: "char \<Rightarrow> string" where
  "escape_char c =
     (if c = CHR 0x22 then [CHR 0x5C, CHR 0x22]
      else if c = CHR 0x5C then [CHR 0x5C, CHR 0x5C]
      else if c = CHR 0x08 then [CHR 0x5C, CHR ''b'']
      else if c = CHR 0x0C then [CHR 0x5C, CHR ''f'']
      else if c = CHR 0x0A then [CHR 0x5C, CHR ''n'']
      else if c = CHR 0x0D then [CHR 0x5C, CHR ''r'']
      else if c = CHR 0x09 then [CHR 0x5C, CHR ''t'']
      else if (of_char c :: nat) < 32
        then [CHR 0x5C, CHR ''u'', CHR ''0'', CHR ''0'',
              hex_digit ((of_char c :: nat) div 16), hex_digit ((of_char c :: nat) mod 16)]
      else [c])"

definition quote :: "string \<Rightarrow> string" where
  "quote s = [CHR 0x22] @ concat (map escape_char s) @ [CHR 0x22]"

text \<open>A number that is not finite is written \<^verbatim>\<open>null\<close>.\<close>

definition stringify_number :: "jsnum \<Rightarrow> string" where
  "stringify_number n = (case n of Dbl m e \<Rightarrow> js_to_string n | _ \<Rightarrow> ''null'')"

text \<open>
  \<open>stringify ind v\<close> is the text of \<open>v\<close> when the line it starts on is indented by
  \<open>ind\<close>; the members of an array or an object go on lines of their own, two spaces
  further in.
\<close>

fun stringify :: "string \<Rightarrow> json \<Rightarrow> string"
  and stringify_items :: "string \<Rightarrow> json list \<Rightarrow> string list"
  and stringify_members :: "string \<Rightarrow> (string \<times> json) list \<Rightarrow> string list"
where
  "stringify ind JNull = ''null''"
| "stringify ind (JBool b) = (if b then ''true'' else ''false'')"
| "stringify ind (JNum n) = stringify_number n"
| "stringify ind (JStr s) = quote s"
| "stringify ind (JArr xs) =
     (if xs = [] then ''[]''
      else ''['' @ [CHR 0x0A] @ join ('','' @ [CHR 0x0A]) (stringify_items (ind @ ''  '') xs)
           @ [CHR 0x0A] @ ind @ '']'')"
| "stringify ind (JObj kvs) =
     (if kvs = [] then ''{}''
      else ''{'' @ [CHR 0x0A] @ join ('','' @ [CHR 0x0A]) (stringify_members (ind @ ''  '') kvs)
           @ [CHR 0x0A] @ ind @ ''}'')"
| "stringify_items ind [] = []"
| "stringify_items ind (x # xs) = (ind @ stringify ind x) # stringify_items ind xs"
| "stringify_members ind [] = []"
| "stringify_members ind ((k, v) # kvs) =
     (ind @ quote k @ '': '' @ stringify ind v) # stringify_members ind kvs"

definition JSON_stringify :: "json \<Rightarrow> string" where
  "JSON_stringify v = stringify [] v"

section \<open>Errors\<close>

text \<open>One issue of a failed schema check: the path of the offending field and a message.\<close>

datatype issue = Issue (issue_path: "string list") (issue_message: string)

text \<open>
  An error object, by its class. A plain \<^verbatim>\<open>Error\<close> has a message and may carry a
  \<^verbatim>\<open>statusCode\<close> and a \<^verbatim>\<open>code\<close> (the interface \<^verbatim>\<open>AppError\<close>); a \<^verbatim>\<open>ZodError\<close> holds its issues;
  \<^verbatim>\<open>ValidationError\<close> and \<^verbatim>\<open>MCPError\<close> (src/utils/errorHandler.ts, lines 10-32) hold a
  message, a status code and details.
\<close>

datatype js_error =
    PlainError string "nat option" "string option"
  | ZodError string "issue list"
  | ValidationError string nat "issue list option"
  | MCPError string nat "issue list option"

text \<open>\<^verbatim>\<open>new Error(m)\<close>, \<^verbatim>\<open>new ValidationError(m, d)\<close> and \<^verbatim>\<open>new MCPError(m, d)\<close>.\<close>

definition Error :: "string \<Rightarrow> js_error" where
  "Error m = PlainError m None None"

definition new_ValidationError :: "string \<Rightarrow> issue list option \<Rightarrow> js_error" where
  "new_ValidationError m d = ValidationError m 400 d"

definition new_MCPError :: "string \<Rightarrow> issue list option \<Rightarrow> js_error" where
  "new_MCPError m d = MCPError m 500 d"

text \<open>src/utils/errorHandler.ts, lines 106-117.\<close>

definition createError :: "string \<Rightarrow> nat \<Rightarrow> string option \<Rightarrow> js_error" where
  "createError m sc c = PlainError m (Some sc) c"


text \<open>
  A value that a \<^verbatim>\<open>throw\<close> statement can raise: an error object, or a value that is not
  an instance of \<^verbatim>\<open>Error\<close>.
\<close>

datatype thrown = Thrown js_error | NotAnError

section \<open>Schemas\<close>

text \<open>
  A schema of the validation library, as the function its \<^verbatim>\<open>parse\<close> computes: from the
  path of the value and the value to the issues found and the parsed value. The value is
  \<open>None\<close> when parsing was aborted (the input has the wrong type); a failed check adds
  an issue and parsing goes on.
\<close>

type_synonym 'a parser = "string list \<Rightarrow> json option \<Rightarrow> issue list \<times> 'a option"

text \<open>The library's name for the type of an input, and its message for a wrong type.\<close>

definition parsed_type :: "json option \<Rightarrow> string" where
  "parsed_type v =
     (case v of
        None \<Rightarrow> ''undefined''
      | Some JNull \<Rightarrow> ''null''
      | Some (JBool b) \<Rightarrow> ''boolean''
      | Some (JNum n) \<Rightarrow> (if n = NaN then ''nan'' else ''number'')
      | Some (JStr s) \<Rightarrow> ''string''
      | Some (JArr xs) \<Rightarrow> ''array''
      | Some (JObj kvs) \<Rightarrow> ''object'')"

definition invalid_type :: "string \<Rightarrow> json option \<Rightarrow> string" where
  "invalid_type expected v =
     (if v = None then ''Required''
      else ''Expected '' @ expected @ '', received '' @ parsed_type v)"

text \<open>\<^verbatim>\<open>z.string()\<close> and \<^verbatim>\<open>z.number()\<close>; the latter refuses NaN.\<close>

definition z_string :: "string parser" where
  "z_string path v =
     (case v of
        Some (JStr s) \<Rightarrow> ([], Some s)
      | _ \<Rightarrow> ([Issue path (invalid_type ''string'' v)], None))"

definition z_number :: "jsnum parser" where
  "z_number path v =
     (case v of
        Some (JNum n) \<Rightarrow>
          (if n = NaN then ([Issue path (invalid_type ''number'' v)], None) else ([], Some n))
      | _ \<Rightarrow> ([Issue path (invalid_type ''number'' v)], None))"

text \<open>
  \<^verbatim>\<open>z.enum(values, { errorMap: () => ({ message }) })\<close>: every issue of the schema
  carries the given message.
\<close>

definition z_enum :: "string list \<Rightarrow> string \<Rightarrow> string parser" where
  "z_enum values msg path v =
     (case v of
        Some (JStr s) \<Rightarrow> (if s \<in> set values then ([], Some s) else ([Issue path msg], None))
      | _ \<Rightarrow> ([Issue path msg], None))"

text \<open>
  \<^verbatim>\<open>.refine(ok, { message, path })\<close>: the test runs on a value that was parsed, also
  after failed checks, and its issue is filed under the given path below the value's.
  A check such as \<^verbatim>\<open>.min(n, message)\<close> is the same with the value's own path.
\<close>

definition refine :: "('a \<Rightarrow> bool) \<Rightarrow> string \<Rightarrow> string list \<Rightarrow> 'a parser \<Rightarrow> 'a parser" where
  "refine ok msg sub p path v =
     (case p path v of
        (iss, None) \<Rightarrow> (iss, None)
      | (iss, Some x) \<Rightarrow> if ok x then (iss, Some x) else (iss @ [Issue (path @ sub) msg], Some x))"

definition check :: "('a \<Rightarrow> bool) \<Rightarrow> string \<Rightarrow> 'a parser \<Rightarrow> 'a parser" where
  "check ok msg p = refine ok msg [] p"

text \<open>
  The two steps of \<^verbatim>\<open>z.object\<close>: the input must be an object, and the results of the
  fields are put together, issues in the order of the fields.
\<close>

definition object_input :: "string list \<Rightarrow> json option \<Rightarrow> issue list + (string \<times> json) list" where
  "object_input path v =
     (case v of
        Some (JObj kvs) \<Rightarrow> Inr kvs
      | _ \<Rightarrow> Inl [Issue path (invalid_type ''object'' v)])"

definition both :: "issue list \<times> 'a option \<Rightarrow> issue list \<times> 'b option \<Rightarrow> issue list \<times> ('a \<times> 'b) option" where
  "both r1 r2 =
     (fst r1 @ fst r2,
      case (snd r1, snd r2) of (Some x, Some y) \<Rightarrow> Some (x, y) | _ \<Rightarrow> None)"

subsection \<open>src/schemas/commonSchemas.ts\<close>

definition LatitudeSchema :: "jsnum parser" where
  "LatitudeSchema =
     check (\<lambda>x. \<not> js_less (num_of_int 90) x) ''Latitude must be between -90 and 90''
       (check (\<lambda>x. \<not> js_less x (num_of_int (- 90))) ''Latitude must be between -90 and 90''
          z_number)"

definition LongitudeSchema :: "jsnum parser" where
  "LongitudeSchema =
     check (\<lambda>x. \<not> js_less (num_of_int 180) x) ''Longitude must be between -180 and 180''
       (check (\<lambda>x. \<not> js_less x (num_of_int (- 180))) ''Longitude must be between -180 and 180''
          z_number)"

text \<open>\<^verbatim>\<open>/^[A-Z]{2}$/\<close>.\<close>

definition two_uppercase :: "string \<Rightarrow> bool" where
  "two_uppercase s \<longleftrightarrow>
     length s = 2 \<and> list_all (\<lambda>c. (65 :: nat) \<le> of_char c \<and> (of_char c :: nat) \<le> 90) s"

definition StateSchema :: "string parser" where
  "StateSchema =
     check two_uppercase ''State code must be 2 uppercase letters''
       (check (\<lambda>s. js_length s = 2) ''State code must be exactly 2 characters'' z_string)"

definition NameSchema :: "string parser" where
  "NameSchema =
     check (\<lambda>s. js_length s \<le> 100) ''Name cannot exceed 100 characters''
       (check (\<lambda>s. 1 \<le> js_length s) ''Name is required'' z_string)"

subsection \<open>src/schemas/toolSchemas.ts\<close>

text \<open>
  The parsed arguments of the four tools: the name; the operation with \<^verbatim>\<open>a\<close> and \<^verbatim>\<open>b\<close>;
  the latitude with the longitude; the state.
\<close>

type_synonym SayHelloArgs = string
type_synonym CalculateArgs = "string \<times> jsnum \<times> jsnum"
type_synonym WeatherForecastArgs = "jsnum \<times> jsnum"
type_synonym WeatherAlertsArgs = string

definition SayHelloSchema :: "SayHelloArgs parser" where
  "SayHelloSchema path v =
     (case object_input path v of
        Inl iss \<Rightarrow> (iss, None)
      | Inr kvs \<Rightarrow> NameSchema (path @ [''name'']) (map_of kvs ''name''))"

definition calculate_fields :: "CalculateArgs parser" where
  "calculate_fields path v =
     (case object_input path v of
        Inl iss \<Rightarrow> (iss, None)
      | Inr kvs \<Rightarrow>
          both
            (z_enum [''add'', ''subtract'', ''multiply'', ''divide'']
               ''Operation must be one of: add, subtract, multiply, divide''
               (path @ [''operation'']) (map_of kvs ''operation''))
            (both (z_number (path @ [''a'']) (map_of kvs ''a''))
                  (z_number (path @ [''b'']) (map_of kvs ''b''))))"

definition CalculateSchema :: "CalculateArgs parser" where
  "CalculateSchema =
     refine (\<lambda>(operation, a, b). \<not> (operation = ''divide'' \<and> is_zero b))
       ''Division by zero is not allowed'' [''b''] calculate_fields"

definition WeatherForecastSchema :: "WeatherForecastArgs parser" where
  "WeatherForecastSchema path v =
     (case object_input path v of
        Inl iss \<Rightarrow> (iss, None)
      | Inr kvs \<Rightarrow>
          both (LatitudeSchema (path @ [''latitude'']) (map_of kvs ''latitude''))
               (LongitudeSchema (path @ [''longitude'']) (map_of kvs ''longitude'')))"

definition WeatherAlertsSchema :: "WeatherAlertsArgs parser" where
  "WeatherAlertsSchema path v =
     (case object_input path v of
        Inl iss \<Rightarrow> (iss, None)
      | Inr kvs \<Rightarrow> StateSchema (path @ [''state'']) (map_of kvs ''state''))"

text \<open>
  \<^verbatim>\<open>validateToolArgs\<close>, lines 56-68: the parsed value, or an \<^verbatim>\<open>Error\<close> whose message
  lists the issues as \<^verbatim>\<open>path: message\<close>.
\<close>

definition issue_text :: "issue \<Rightarrow> string" where
  "issue_text i = join ''.'' (issue_path i) @ '': '' @ issue_message i"

definition validateToolArgs :: "'a parser \<Rightarrow> json option \<Rightarrow> js_error + 'a" where
  "validateToolArgs schema args =
     (case schema [] args of
        ([], Some x) \<Rightarrow> Inr x
      | (iss, r) \<Rightarrow> Inl (Error (''Validation failed: '' @ join '', '' (map issue_text iss))))"

section \<open>Tool handlers\<close>

text \<open>
  What a handler can reach outside its arguments: the results that \<^verbatim>\<open>Math.random()\<close> is
  going to return, with the number already drawn, and the clock as text
  (\<^verbatim>\<open>toLocaleString\<close>, \<^verbatim>\<open>toISOString\<close>). A handler takes the world and returns it, so that
  what it draws or reads shows.
\<close>

record world =
  random_source :: "nat \<Rightarrow> jsnum"
  drawn :: nat
  locale_time :: string
  iso_time :: string

definition Math_random :: "world \<Rightarrow> jsnum \<times> world" where
  "Math_random w = (random_source w (drawn w), w\<lparr>drawn := Suc (drawn w)\<rparr>)"

text \<open>The \<^verbatim>\<open>content\<close> array of a tool result: items of type \<^verbatim>\<open>text\<close>.\<close>

datatype content_item = TextItem string

type_synonym envelope = "content_item list"

type_synonym 'a handler = "'a \<Rightarrow> world \<Rightarrow> (js_error + envelope) \<times> world"

subsection \<open>src/server.ts: handlers behind an input schema\<close>

text \<open>Lines 32-39.\<close>

definition sayHello :: "string handler" where
  "sayHello name w = (Inr [TextItem (''Hello, '' @ name @ ''!'')], w)"

text \<open>Lines 63-84, the \<^verbatim>\<open>switch\<close> that computes \<^verbatim>\<open>result\<close>.\<close>

definition calculate_result :: "string \<Rightarrow> jsnum \<Rightarrow> jsnum \<Rightarrow> js_error + jsnum" where
  "calculate_result operation a b =
     (if operation = ''add'' then Inr (js_add a b)
      else if operation = ''subtract'' then Inr (js_sub a b)
      else if operation = ''multiply'' then Inr (js_mul a b)
      else if operation = ''divide'' then
        (if is_zero b then Inl (Error ''Division by zero is not allowed'')
         else Inr (js_div a b))
      else Inl (Error (''Unknown operation: '' @ operation
                       @ ''. Supported: add, subtract, multiply, divide'')))"

text \<open>Lines 86-93, the text \<^verbatim>\<open>`${a} ${operation} ${b} = ${result}`\<close>.\<close>

definition calculation_text :: "string \<Rightarrow> string \<Rightarrow> string \<Rightarrow> jsnum \<Rightarrow> envelope" where
  "calculation_text a operation b r =
     [TextItem (a @ '' '' @ operation @ '' '' @ b @ '' = '' @ js_to_string r)]"

text \<open>Lines 54-94.\<close>

definition calculate :: "(string \<times> jsnum \<times> jsnum) handler" where
  "calculate args w =
     (case args of (operation, a, b) \<Rightarrow>
        (case calculate_result operation a b of
           Inl e \<Rightarrow> (Inl e, w)
         | Inr r \<Rightarrow> (Inr (calculation_text (js_to_string a) operation (js_to_string b) r), w)))"

subsection \<open>The server that validates inside the handlers\<close>

text \<open>The handler of \<^verbatim>\<open>sayHello\<close> that calls \<^verbatim>\<open>validateToolArgs\<close> first.\<close>

definition sayHello_validating :: "json option handler" where
  "sayHello_validating args w =
     (case validateToolArgs SayHelloSchema args of
        Inl e \<Rightarrow> (Inl e, w)
      | Inr name \<Rightarrow> (Inr [TextItem (''Hello, '' @ name @ ''!'')], w))"

text \<open>
  The \<^verbatim>\<open>switch\<close> of the validating \<^verbatim>\<open>calculate\<close>: the division is not guarded here, the
  schema is.
\<close>

definition calculate_switch :: "string \<Rightarrow> jsnum \<Rightarrow> jsnum \<Rightarrow> js_error + jsnum" where
  "calculate_switch operation a b =
     (if operation = ''add'' then Inr (js_add a b)
      else if operation = ''subtract'' then Inr (js_sub a b)
      else if operation = ''multiply'' then Inr (js_mul a b)
      else if operation = ''divide'' then Inr (js_div a b)
      else Inl (Error (''Unknown operation: '' @ operation
                       @ ''. Supported: add, subtract, multiply, divide'')))"

definition calculate_validating :: "json option handler" where
  "calculate_validating args w =
     (case validateToolArgs CalculateSchema args of
        Inl e \<Rightarrow> (Inl e, w)
      | Inr (operation, a, b) \<Rightarrow>
          (case calculate_switch operation a b of
             Inl e \<Rightarrow> (Inl e, w)
           | Inr r \<Rightarrow>
               (Inr (calculation_text (js_to_string a) operation (js_to_string b) r), w)))"

subsection \<open>The weather plugin\<close>

text \<open>The marks that open the lines of the forecast and of the alerts, byte for byte.\<close>

definition mark_conditions :: string where
  "mark_conditions =
     [CHR 0xEF, CHR 0xA3, CHR 0xBF, CHR 0xC3, CHR 0xBC, CHR 0xC3, CHR 0xA5, CHR 0xC2, CHR 0xA7,
      CHR 0xC3, CHR 0x94, CHR 0xE2, CHR 0x88, CHR 0x8F, CHR 0xC3, CHR 0xA8]"

definition mark_temperature :: string where
  "mark_temperature =
     [CHR 0xEF, CHR 0xA3, CHR 0xBF, CHR 0xC3, CHR 0xBC, CHR 0xC3, CHR 0xA5, CHR 0xC2, CHR 0xB0,
      CHR 0xC3, CHR 0x94, CHR 0xE2, CHR 0x88, CHR 0x8F, CHR 0xC3, CHR 0xA8]"

definition mark_degree :: string where
  "mark_degree = [CHR 0xC2, CHR 0xAC, CHR 0xE2, CHR 0x88, CHR 0x9E]"

definition mark_updated :: string where
  "mark_updated = [CHR 0xE2, CHR 0x80, CHR 0x9A, CHR 0xC3, CHR 0xA8, CHR 0xE2, CHR 0x88, CHR 0x9E]"

definition mark_none :: string where
  "mark_none = [CHR 0xE2, CHR 0x80, CHR 0x9A, CHR 0xC3, CHR 0xBA, CHR 0xC3, CHR 0x96]"

definition mark_alert :: string where
  "mark_alert =
     [CHR 0xE2, CHR 0x80, CHR 0x9A, CHR 0xC3, CHR 0xB6, CHR 0xE2, CHR 0x80, CHR 0xA0,
      CHR 0xC3, CHR 0x94, CHR 0xE2, CHR 0x88, CHR 0x8F, CHR 0xC3, CHR 0xA8]"

text \<open>\<^verbatim>\<open>xs[i]\<close> in a template literal: the element, or \<^verbatim>\<open>undefined\<close> off the array.\<close>

definition element_text :: "string list \<Rightarrow> jsnum \<Rightarrow> string" where
  "element_text xs i =
     (case i of
        Dbl m e \<Rightarrow>
          (let (p, q) = fraction m e
           in if q = 1 \<and> 0 \<le> p \<and> p < int (length xs) then xs ! nat p else ''undefined'')
      | _ \<Rightarrow> ''undefined'')"

text \<open>
  \<^verbatim>\<open>simulateWeatherAPI\<close>: two draws of \<^verbatim>\<open>Math.random()\<close>, the first for the temperature,
  and a reading of the clock. The delay of 100 ms is left out.
\<close>

definition simulateWeatherAPI :: "jsnum \<Rightarrow> jsnum \<Rightarrow> world \<Rightarrow> string \<times> world" where
  "simulateWeatherAPI latitude longitude w =
     (let (r1, w1) = Math_random w;
          temperature =
            Math_round
              (js_add (js_add (num_of_int 20) (js_mul latitude (fl 1 2)))
                      (js_sub (js_mul r1 (num_of_int 10)) (num_of_int 5)));
          conditions = [''Sunny'', ''Cloudy'', ''Rainy'', ''Partly Cloudy''];
          (r2, w2) = Math_random w1;
          condition = element_text conditions (Math_floor (js_mul r2 (num_of_int (int (length conditions)))))
      in (trim
            ([CHR 0x0A] @ mark_conditions @ ''  Current Conditions: '' @ condition @ [CHR 0x0A]
             @ mark_temperature @ ''  Temperature: '' @ js_to_string temperature
             @ mark_degree @ ''C'' @ [CHR 0x0A]
             @ ''        Location: '' @ toFixed 4 latitude @ '', '' @ toFixed 4 longitude
             @ [CHR 0x0A]
             @ mark_updated @ '' Updated: '' @ locale_time w2 @ [CHR 0x0A] @ ''  ''),
          w2))"

text \<open>\<^verbatim>\<open>alerts.filter(() => Math.random() > 0.7)\<close>: one draw for each element, in order.\<close>

fun filter_random :: "string list \<Rightarrow> world \<Rightarrow> string list \<times> world" where
  "filter_random [] w = ([], w)"
| "filter_random (x # xs) w =
     (let (r, w1) = Math_random w;
          (ys, w2) = filter_random xs w1
      in (if js_less (fl 7 10) r then x # ys else ys, w2))"

definition simulateAlertsAPI :: "world \<Rightarrow> string \<times> world" where
  "simulateAlertsAPI w =
     (let alerts = [''Severe Thunderstorm Warning'', ''Flash Flood Watch'', ''Heat Advisory'',
                    ''Winter Weather Advisory''];
          no_alerts = mark_none @ '' No active weather alerts for this state.'';
          (r, w1) = Math_random w
      in if \<not> js_less (fl 1 2) r then (no_alerts, w1)
         else
           (let (kept, w2) = filter_random alerts w1;
                activeAlerts = take 2 kept
            in if length activeAlerts = 0 then (no_alerts, w2)
               else (join [CHR 0x0A] (map (\<lambda>alert. mark_alert @ ''  '' @ alert) activeAlerts), w2)))"

text \<open>\<^verbatim>\<open>registerWeatherTools\<close>: the two handlers.\<close>

definition getWeatherForecast :: "json option handler" where
  "getWeatherForecast args w =
     (case validateToolArgs WeatherForecastSchema args of
        Inl e \<Rightarrow> (Inl e, w)
      | Inr (latitude, longitude) \<Rightarrow>
          (let (forecast, w1) = simulateWeatherAPI latitude longitude w
           in (Inr [TextItem (''Weather forecast for coordinates ('' @ js_to_string latitude
                              @ '', '' @ js_to_string longitude @ ''):'' @ [CHR 0x0A] @ forecast)],
               w1)))"

definition getWeatherAlerts :: "json option handler" where
  "getWeatherAlerts args w =
     (case validateToolArgs WeatherAlertsSchema args of
        Inl e \<Rightarrow> (Inl e, w)
      | Inr state \<Rightarrow>
          (let (alerts, w1) = simulateAlertsAPI w
           in (Inr [TextItem (''Weather alerts for '' @ state @ '':'' @ [CHR 0x0A] @ alerts)], w1)))"

section \<open>The server that registers its request handlers by method\<close>

text \<open>
  The variant of \<^verbatim>\<open>createMCPServer\<close> that calls \<^verbatim>\<open>server.setRequestHandler\<close> for
  \<^verbatim>\<open>tools/list\<close>, \<^verbatim>\<open>tools/call\<close>, \<^verbatim>\<open>resources/list\<close>, \<^verbatim>\<open>resources/read\<close>, \<^verbatim>\<open>prompts/list\<close> and
  \<^verbatim>\<open>prompts/get\<close> (the file of src/config/constants.ts, lines 583-810).
\<close>

record tool_descriptor =
  tool_name :: string
  tool_description :: string
  tool_inputSchema :: json

record resource_descriptor =
  resource_uri :: string
  resource_name :: string
  resource_description :: string
  resource_mimeType :: string

record resource_content =
  content_uri :: string
  content_mimeType :: string
  content_text :: string

record prompt_argument =
  argument_name :: string
  argument_description :: string
  argument_required :: bool

record prompt_descriptor =
  prompt_name :: string
  prompt_description :: string
  prompt_arguments :: "prompt_argument list"

text \<open>The result of \<^verbatim>\<open>prompts/get\<close>: a description and the text of one user message.\<close>

record prompt_result =
  result_description :: string
  result_message :: string

datatype result =
    ToolList "tool_descriptor list"
  | ToolResult envelope
  | ResourceList "resource_descriptor list"
  | ResourceContents "resource_content list"
  | PromptList "prompt_descriptor list"
  | PromptResult prompt_result

text \<open>The party mark after the greeting, byte for byte.\<close>

definition mark_party :: string where
  "mark_party = [CHR 0xF0, CHR 0x9F, CHR 0x8E, CHR 0x89]"

definition mark_rocket :: string where
  "mark_rocket = [CHR 0xF0, CHR 0x9F, CHR 0x9A, CHR 0x80]"

text \<open>Lines 590-632.\<close>

definition tools_list :: "tool_descriptor list" where
  "tools_list =
     [\<lparr>tool_name = ''sayHello'',
       tool_description = ''Says hello to a person by name'',
       tool_inputSchema =
         JObj [(''type'', JStr ''object''),
               (''properties'',
                JObj [(''name'',
                       JObj [(''type'', JStr ''string''),
                             (''description'', JStr ''The name of the person to greet'')])]),
               (''required'', JArr [JStr ''name''])]\<rparr>,
      \<lparr>tool_name = ''calculate'',
       tool_description = ''Performs basic arithmetic calculations'',
       tool_inputSchema =
         JObj [(''type'', JStr ''object''),
               (''properties'',
                JObj [(''operation'',
                       JObj [(''type'', JStr ''string''),
                             (''enum'', JArr [JStr ''add'', JStr ''subtract'', JStr ''multiply'',
                                              JStr ''divide'']),
                             (''description'', JStr ''The arithmetic operation to perform'')]),
                      (''a'',
                       JObj [(''type'', JStr ''number''), (''description'', JStr ''First number'')]),
                      (''b'',
                       JObj [(''type'', JStr ''number''), (''description'', JStr ''Second number'')])]),
               (''required'', JArr [JStr ''operation'', JStr ''a'', JStr ''b''])]\<rparr>]"

text \<open>
  Lines 637-649, the case \<^verbatim>\<open>"sayHello"\<close> of \<^verbatim>\<open>tools/call\<close>.
\<close>

definition call_sayHello :: "json option \<Rightarrow> js_error + envelope" where
  "call_sayHello args =
     (let name = property ''name'' args
      in if \<not> truthy name \<or> typeof name \<noteq> ''string''
         then Inl (Error ''Name parameter is required and must be a string'')
         else (case name of
                 Some v \<Rightarrow> Inr [TextItem (''Hello, '' @ to_text v @ ''! '' @ mark_party)]
               | None \<Rightarrow> Inl (Error ''Name parameter is required and must be a string'')))"

text \<open>
  Lines 651-684, the case \<^verbatim>\<open>"calculate"\<close>. Destructuring \<^verbatim>\<open>undefined\<close> or \<^verbatim>\<open>null\<close> is a
  TypeError of the engine.
\<close>

definition call_calculate :: "json option \<Rightarrow> js_error + envelope" where
  "call_calculate args =
     (if args = None \<or> args = Some JNull
      then Inl (Error (''Cannot destructure property 'operation' of 'args' as it is ''
                       @ (if args = None then ''undefined'' else ''null'') @ ''.''))
      else
        (case (property ''operation'' args, property ''a'' args, property ''b'' args) of
           (Some operation, Some (JNum a), Some (JNum b)) \<Rightarrow>
             (if \<not> truthy (Some operation) then Inl (Error ''Invalid parameters for calculation'')
              else
                (case (if operation = JStr ''add'' then Inr (js_add a b)
                       else if operation = JStr ''subtract'' then Inr (js_sub a b)
                       else if operation = JStr ''multiply'' then Inr (js_mul a b)
                       else if operation = JStr ''divide'' then
                         (if is_zero b then Inl (Error ''Division by zero is not allowed'')
                          else Inr (js_div a b))
                       else Inl (Error (''Unknown operation: '' @ to_text operation))) of
                   Inl e \<Rightarrow> Inl e
                 | Inr r \<Rightarrow>
                     Inr (calculation_text (js_to_string a) (to_text operation) (js_to_string b) r)))
         | _ \<Rightarrow> Inl (Error ''Invalid parameters for calculation'')))"

text \<open>Lines 634-689: \<^verbatim>\<open>tools/call\<close>, with the default case at lines 686-687.\<close>

definition tools_call :: "string \<Rightarrow> json option \<Rightarrow> js_error + envelope" where
  "tools_call name args =
     (if name = ''sayHello'' then call_sayHello args
      else if name = ''calculate'' then call_calculate args
      else Inl (Error (''Unknown tool: '' @ name)))"

text \<open>Lines 692-709.\<close>

definition resources_list :: "resource_descriptor list" where
  "resources_list =
     [\<lparr>resource_uri = ''mcp://server-info'', resource_name = ''Server Information'',
       resource_description = ''Information about this MCP server'',
       resource_mimeType = ''application/json''\<rparr>,
      \<lparr>resource_uri = ''mcp://hello-message'', resource_name = ''Hello Message'',
       resource_description = ''A simple hello message resource'',
       resource_mimeType = ''text/plain''\<rparr>]"

text \<open>Lines 721-728: the object handed to \<^verbatim>\<open>JSON.stringify\<close>.\<close>

definition server_info :: "string \<Rightarrow> json" where
  "server_info created =
     JObj [(''name'', JStr ''ts-template-mcp-server''),
           (''version'', JStr ''1.0.0''),
           (''description'',
            JStr ''A TypeScript MCP server template with basic tools and resources''),
           (''capabilities'', JArr [JStr ''tools'', JStr ''resources'']),
           (''author'', JStr ''Your Name''),
           (''created'', JStr created)]"

text \<open>Lines 711-747: \<^verbatim>\<open>resources/read\<close>.\<close>

definition resources_read :: "string \<Rightarrow> world \<Rightarrow> js_error + resource_content list" where
  "resources_read uri w =
     (if uri = ''mcp://server-info'' then
        Inr [\<lparr>content_uri = uri, content_mimeType = ''application/json'',
              content_text = JSON_stringify (server_info (iso_time w))\<rparr>]
      else if uri = ''mcp://hello-message'' then
        Inr [\<lparr>content_uri = uri, content_mimeType = ''text/plain'',
              content_text = ''Hello from the MCP TypeScript Server! '' @ mark_rocket
                @ [CHR 0x0A, CHR 0x0A] @ ''This is a resource that can be read by MCP clients.''\<rparr>]
      else Inl (Error (''Unknown resource: '' @ uri)))"

text \<open>Lines 750-771.\<close>

definition prompts_list :: "prompt_descriptor list" where
  "prompts_list =
     [\<lparr>prompt_name = ''greeting-prompt'',
       prompt_description = ''Generate a personalized greeting'',
       prompt_arguments =
         [\<lparr>argument_name = ''name'',
           argument_description = ''The name of the person to greet'',
           argument_required = True\<rparr>,
          \<lparr>argument_name = ''style'',
           argument_description = ''The style of greeting (formal, casual, enthusiastic)'',
           argument_required = False\<rparr>]\<rparr>]"

text \<open>\<^verbatim>\<open>v || d\<close> for a text default \<open>d\<close>.\<close>

definition or_default :: "json option \<Rightarrow> string \<Rightarrow> json" where
  "or_default v d = (case v of Some x \<Rightarrow> (if truthy v then x else JStr d) | None \<Rightarrow> JStr d)"

text \<open>Lines 773-807: \<^verbatim>\<open>prompts/get\<close>.\<close>

definition prompts_get :: "string \<Rightarrow> json option \<Rightarrow> js_error + prompt_result" where
  "prompts_get name args =
     (if name = ''greeting-prompt'' then
        (let personName = to_text (or_default (property ''name'' args) ''there'');
             style = or_default (property ''style'' args) ''casual'';
             greeting =
               (if style = JStr ''formal''
                  then ''Good day, '' @ personName @ ''. I hope you are well.''
                else if style = JStr ''enthusiastic''
                  then ''Hey there, '' @ personName @ ''! '' @ mark_party
                       @ '' So excited to meet you!''
                else ''Hi '' @ personName @ ''! How's it going?'')
         in Inr \<lparr>result_description = ''A '' @ to_text style @ '' greeting for '' @ personName,
                 result_message = greeting\<rparr>)
      else Inl (Error (''Unknown prompt: '' @ name)))"

text \<open>
  A protocol message by its method, and the handler registered for the method. A method
  with no registered handler is left to the SDK; here it is the outcome \<open>NoHandler\<close>.
  None of the handlers draws from the world or changes it.
\<close>

datatype message =
    ToolsList
  | ToolsCall string "json option"
  | ResourcesList
  | ResourcesRead string
  | PromptsList
  | PromptsGet string "json option"
  | OtherMethod string

datatype outcome = Returned result | Threw js_error | NoHandler

definition as_outcome :: "('a \<Rightarrow> result) \<Rightarrow> js_error + 'a \<Rightarrow> outcome" where
  "as_outcome f r = (case r of Inl e \<Rightarrow> Threw e | Inr x \<Rightarrow> Returned (f x))"

definition handle_message :: "message \<Rightarrow> world \<Rightarrow> outcome \<times> world" where
  "handle_message msg w =
     (case msg of
        ToolsList \<Rightarrow> (Returned (ToolList tools_list), w)
      | ToolsCall name args \<Rightarrow> (as_outcome ToolResult (tools_call name args), w)
      | ResourcesList \<Rightarrow> (Returned (ResourceList resources_list), w)
      | ResourcesRead uri \<Rightarrow> (as_outcome ResourceContents (resources_read uri w), w)
      | PromptsList \<Rightarrow> (Returned (PromptList prompts_list), w)
      | PromptsGet name args \<Rightarrow> (as_outcome PromptResult (prompts_get name args), w)
      | OtherMethod m \<Rightarrow> (NoHandler, w))"


section \<open>The servers that register tools and resources one by one\<close>

text \<open>
  What \<^verbatim>\<open>registerTool\<close> and \<^verbatim>\<open>registerResource\<close> are given. Of an input schema the
  names of its fields are kept; \<open>None\<close> is a tool registered without one.
\<close>

record tool_entry =
  entry_name :: string
  entry_title :: string
  entry_description :: string
  entry_schema :: "string list option"

record resource_entry =
  entry_resource :: string
  entry_uri :: string
  entry_resource_title :: string
  entry_resource_description :: string
  entry_mimeType :: string
  entry_read :: "string \<Rightarrow> world \<Rightarrow> resource_content list"

record mcp_server =
  server_name :: string
  server_version :: string
  tools :: "tool_entry list"
  resources :: "resource_entry list"

definition McpServer :: "string \<Rightarrow> string \<Rightarrow> mcp_server" where
  "McpServer name version =
     \<lparr>server_name = name, server_version = version, tools = [], resources = []\<rparr>"

definition registerTool :: "tool_entry \<Rightarrow> mcp_server \<Rightarrow> mcp_server" where
  "registerTool entry srv = srv\<lparr>tools := tools srv @ [entry]\<rparr>"

definition registerResource :: "resource_entry \<Rightarrow> mcp_server \<Rightarrow> mcp_server" where
  "registerResource entry srv = srv\<lparr>resources := resources srv @ [entry]\<rparr>"

text \<open>\<^verbatim>\<open>registerWeatherTools\<close> of the weather plugin.\<close>

definition registerWeatherTools :: "mcp_server \<Rightarrow> mcp_server" where
  "registerWeatherTools srv =
     registerTool
       \<lparr>entry_name = ''getWeatherAlerts'', entry_title = ''Get Weather Alerts'',
        entry_description = ''Get active weather alerts for a US state'',
        entry_schema = None\<rparr>
       (registerTool
          \<lparr>entry_name = ''getWeatherForecast'', entry_title = ''Get Weather Forecast'',
           entry_description = ''Get weather forecast for a specific location using coordinates'',
           entry_schema = None\<rparr>
          srv)"

text \<open>\<^verbatim>\<open>createMCPServer\<close> of src/server.ts, lines 16-100: four tools and no resource.\<close>

definition createMCPServer :: mcp_server where
  "createMCPServer =
     registerWeatherTools
       (registerTool
          \<lparr>entry_name = ''calculate'', entry_title = ''Calculate'',
           entry_description =
             ''Performs basic arithmetic calculations (add, subtract, multiply, divide)'',
           entry_schema = Some [''a'', ''b'', ''operation'']\<rparr>
          (registerTool
             \<lparr>entry_name = ''sayHello'', entry_title = ''Say Hello'',
              entry_description = ''Says hello to a person by name'',
              entry_schema = Some [''name'']\<rparr>
             (McpServer ''ts-template-mcp-server'' ''1.0.0'')))"

text \<open>
  The resources of the server that validates inside its handlers: the object handed to
  \<^verbatim>\<open>JSON.stringify\<close>, and the two callbacks, which get the \<^verbatim>\<open>href\<close> of the URI.
\<close>

definition tool_note :: "string \<Rightarrow> string \<Rightarrow> string \<Rightarrow> json" where
  "tool_note name description parameters =
     JObj [(''name'', JStr name), (''description'', JStr description),
           (''parameters'', JStr parameters)]"

definition server_info_validating :: "string \<Rightarrow> json" where
  "server_info_validating created =
     JObj [(''name'', JStr ''ts-template-mcp-server''),
           (''version'', JStr ''1.0.0''),
           (''description'',
            JStr ''A TypeScript MCP server template with Zod validation and plugin architecture''),
           (''capabilities'', JArr [JStr ''tools'', JStr ''resources'']),
           (''author'', JStr ''Your Name''),
           (''created'', JStr created),
           (''transport'', JStr ''StreamableHTTP + STDIO''),
           (''validation'', JStr ''Zod schemas''),
           (''tools'',
            JArr [tool_note ''sayHello'' ''Says hello to a person by name'' ''{ name: string }'',
                  tool_note ''calculate'' ''Performs basic arithmetic calculations''
                    ''{ operation: 'add'|'subtract'|'multiply'|'divide', a: number, b: number }'',
                  tool_note ''getWeatherForecast'' ''Get weather forecast for coordinates''
                    ''{ latitude: number, longitude: number }'',
                  tool_note ''getWeatherAlerts'' ''Get weather alerts for US state''
                    ''{ state: string }''])]"

definition read_server_info :: "string \<Rightarrow> world \<Rightarrow> resource_content list" where
  "read_server_info href w =
     [\<lparr>content_uri = href, content_mimeType = ''application/json'',
       content_text = JSON_stringify (server_info_validating (iso_time w))\<rparr>]"

definition read_hello_message :: "string \<Rightarrow> world \<Rightarrow> resource_content list" where
  "read_hello_message href w =
     [\<lparr>content_uri = href, content_mimeType = ''text/plain'',
       content_text =
         ''Hello from the MCP TypeScript Server!'' @ [CHR 0x0A, CHR 0x0A]
         @ ''This is a resource that can be read by MCP clients.'' @ [CHR 0x0A, CHR 0x0A]
         @ ''This server follows best practices from the official MCP TypeScript SDK.''
         @ [CHR 0x0A, CHR 0x0A] @ ''Available tools:'' @ [CHR 0x0A]
         @ ''- sayHello: { name: string }'' @ [CHR 0x0A]
         @ ''- calculate: { operation: string, a: number, b: number }''\<rparr>]"

text \<open>\<^verbatim>\<open>createMCPServer\<close> of that server: the same four tools, none with a schema, and two resources.\<close>

definition createMCPServer_validating :: mcp_server where
  "createMCPServer_validating =
     registerResource
       \<lparr>entry_resource = ''hello-message'', entry_uri = ''mcp://hello-message'',
        entry_resource_title = ''Hello Message'',
        entry_resource_description = ''A simple hello message resource'',
        entry_mimeType = ''text/plain'', entry_read = read_hello_message\<rparr>
       (registerResource
          \<lparr>entry_resource = ''server-info'', entry_uri = ''mcp://server-info'',
           entry_resource_title = ''Server Information'',
           entry_resource_description = ''Information about this MCP server'',
           entry_mimeType = ''application/json'', entry_read = read_server_info\<rparr>
          (registerWeatherTools
             (registerTool
                \<lparr>entry_name = ''calculate'', entry_title = ''Calculate'',
                 entry_description =
                   ''Performs basic arithmetic calculations (add, subtract, multiply, divide)'',
                 entry_schema = None\<rparr>
                (registerTool
                   \<lparr>entry_name = ''sayHello'', entry_title = ''Say Hello'',
                    entry_description = ''Says hello to a person by name'',
                    entry_schema = None\<rparr>
                   (McpServer ''ts-template-mcp-server'' ''1.0.0'')))))"

text \<open>
  Modelled from the spec: the lookup \<^verbatim>\<open>get(kind, name)\<close> and the listing \<^verbatim>\<open>list(kind)\<close>
  of the capability table (section 4.3), which the SDK performs on the registered
  entries: the entry with the given URI, or not found; the entries in the order of
  their registration.
\<close>

definition get_resource :: "mcp_server \<Rightarrow> string \<Rightarrow> resource_entry option" where
  "get_resource srv uri = find (\<lambda>r. entry_uri r = uri) (resources srv)"

definition read_resource :: "mcp_server \<Rightarrow> string \<Rightarrow> world \<Rightarrow> resource_content list option" where
  "read_resource srv uri w =
     (case get_resource srv uri of None \<Rightarrow> None | Some r \<Rightarrow> Some (entry_read r uri w))"


definition list_resources :: "mcp_server \<Rightarrow> string list" where
  "list_resources srv = map entry_uri (resources srv)"

section \<open>src/utils/errorHandler.ts\<close>





section \<open>The /mcp route of src/server.ts\<close>

text \<open>
  A transport object is known by its identity: the number of
  \<^verbatim>\<open>new StreamableHTTPServerTransport\<close> evaluations that came before it.
\<close>

type_synonym transport = nat

record server =
  sessions :: "string \<rightharpoonup> transport"
  constructed :: nat
  logged :: "string list"

definition startServer :: server where
  "startServer = \<lparr>sessions = Map.empty, constructed = 0, logged = []\<rparr>"

text \<open>The body of a reply as the route writes it: the two fields of the object sent.\<close>

record reply =
  sent :: bool
  status :: nat
  payload :: "(string \<times> string) list"


text \<open>
  What one request meets outside the route: the \<^verbatim>\<open>mcp-session-id\<close> header,
  \<^verbatim>\<open>Date.now()\<close>, the text \<^verbatim>\<open>Math.random().toString(36).substr(2, 9)\<close>, whether
  \<^verbatim>\<open>mcpServer.connect\<close> throws, and what \<^verbatim>\<open>transport.handleRequest\<close> does to the reply
  and whether it throws.
\<close>

record request =
  header :: "string option"
  date_now :: int
  random36 :: string
  connect_throws :: "thrown option"
  handled :: reply
  handle_throws :: "thrown option"

text \<open>
  Line 145-147: \<^verbatim>\<open>(request.headers['mcp-session-id'] as string) || `session-...` \<close>.
  An absent header and an empty one are both falsy.
\<close>

definition generated_id :: "request \<Rightarrow> string" where
  "generated_id q = ''session-'' @ decimal (date_now q) @ ''-'' @ random36 q"

definition sessionId :: "request \<Rightarrow> string" where
  "sessionId q =
     (case header q of
        None \<Rightarrow> generated_id q
      | Some h \<Rightarrow> if h = [] then generated_id q else h)"

text \<open>
  Lines 145-162, the session resolution step: the binding of the identifier when the map
  has one, otherwise a new transport, connected and then stored. A throw of
  \<^verbatim>\<open>connect\<close> leaves the map as it was.
\<close>

definition resolveOrCreate :: "request \<Rightarrow> server \<Rightarrow> (thrown \<times> server) + (string \<times> transport \<times> server)" where
  "resolveOrCreate q s =
     (let sid = sessionId q in
      case sessions s sid of
        Some t \<Rightarrow> Inr (sid, t, s)
      | None \<Rightarrow>
          (let t = constructed s; s1 = s\<lparr>constructed := Suc t\<rparr> in
           case connect_throws q of
             Some e \<Rightarrow> Inl (e, s1)
           | None \<Rightarrow>
               Inr (sid, t,
                    s1\<lparr>sessions := (sessions s1)(sid \<mapsto> t),
                       logged := logged s1 @ [''Created new MCP session: '' @ sid]\<rparr>)))"





text \<open>
  Every stored transport was constructed before, and no transport is stored under two
  identifiers.
\<close>

definition registry_ok :: "server \<Rightarrow> bool" where
  "registry_ok s \<longleftrightarrow>
     (\<forall>k t. sessions s k = Some t \<longrightarrow> t < constructed s) \<and>
     (\<forall>k k' t. sessions s k = Some t \<and> sessions s k' = Some t \<longrightarrow> k = k')"

text \<open>
  An example request: \<^verbatim>\<open>connect\<close> succeeds and \<^verbatim>\<open>handleRequest\<close> answers 200 without
  throwing.
\<close>

definition plain_request :: "string option \<Rightarrow> int \<Rightarrow> string \<Rightarrow> request" where
  "plain_request h n r =
     \<lparr>header = h, date_now = n, random36 = r, connect_throws = None,
      handled = \<lparr>sent = True, status = 200, payload = []\<rparr>, handle_throws = None\<rparr>"


text \<open>An example world: every draw of \<^verbatim>\<open>Math.random()\<close> gives the same number.\<close>

definition constant_world :: "jsnum \<Rightarrow> world" where
  "constant_world r =
     \<lparr>random_source = (\<lambda>n. r), drawn = 0, locale_time = ''1/1/2025, 12:00:00 AM'',
      iso_time = ''2025-01-01T00:00:00.000Z''\<rparr>"



section \<open>Session resolution\<close>

lemma resolveOrCreate_found:
  "sessions s (sessionId q) = Some t \<Longrightarrow> resolveOrCreate q s = Inr (sessionId q, t, s)"
  by (simp add: resolveOrCreate_def)

lemma resolveOrCreate_new:
  "sessions s (sessionId q) = None \<Longrightarrow> connect_throws q = None \<Longrightarrow>
   resolveOrCreate q s =
     Inr (sessionId q, constructed s,
          s\<lparr>constructed := Suc (constructed s),
            sessions := (sessions s)(sessionId q \<mapsto> constructed s),
            logged := logged s @ [''Created new MCP session: '' @ sessionId q]\<rparr>)"
  by (simp add: resolveOrCreate_def Let_def)

lemma resolveOrCreate_failed:
  "sessions s (sessionId q) = None \<Longrightarrow> connect_throws q = Some e \<Longrightarrow>
   resolveOrCreate q s = Inl (e, s\<lparr>constructed := Suc (constructed s)\<rparr>)"
  by (simp add: resolveOrCreate_def Let_def)

lemma resolveOrCreate_returns:
  assumes "connect_throws q = None"
  shows "\<exists>t s'. resolveOrCreate q s = Inr (sessionId q, t, s')"
proof (cases "sessions s (sessionId q)")
  case None
  with assms show ?thesis by (simp add: resolveOrCreate_new)
next
  case (Some t)
  then show ?thesis by (simp add: resolveOrCreate_found)
qed

lemma registry_ok_startServer: "registry_ok startServer"
  by (simp add: registry_ok_def startServer_def)

lemma registry_ok_insert:
  assumes "registry_ok s" "sessions s k = None"
  shows "registry_ok (s\<lparr>constructed := Suc (constructed s),
            sessions := (sessions s)(k \<mapsto> constructed s), logged := l\<rparr>)"
  using assms unfolding registry_ok_def
  by (auto simp: less_Suc_eq split: if_splits)

lemma resolveOrCreate_ok:
  assumes "registry_ok s" "resolveOrCreate q s = Inr (k, t, s')"
  shows "registry_ok s' \<and> sessions s' k = Some t \<and> k = sessionId q"
proof (cases "sessions s (sessionId q)")
  case None
  show ?thesis
  proof (cases "connect_throws q")
    case (Some e)
    with None assms show ?thesis by (simp add: resolveOrCreate_failed)
  next
    case cn: None
    from assms(2) have "k = sessionId q" "t = constructed s"
      "s' = s\<lparr>constructed := Suc (constructed s),
            sessions := (sessions s)(sessionId q \<mapsto> constructed s),
            logged := logged s @ [''Created new MCP session: '' @ sessionId q]\<rparr>"
      by (auto simp add: resolveOrCreate_new[OF None cn])
    with registry_ok_insert[OF assms(1) None] show ?thesis by simp
  qed
next
  case (Some u)
  with assms show ?thesis by (simp add: resolveOrCreate_found)
qed

lemma resolveOrCreate_keeps:
  assumes "resolveOrCreate q s = Inr (k, t, s')" "sessions s k' = Some t'"
  shows "sessions s' k' = Some t'"
  using assms unfolding resolveOrCreate_def Let_def
  by (auto split: option.splits if_splits)

lemma resolveOrCreate_distinct:
  assumes ok: "registry_ok s"
    and c1: "resolveOrCreate q1 s = Inr (k1, t1, s1)"
    and c2: "resolveOrCreate q2 s1 = Inr (k2, t2, s2)"
    and ne: "sessionId q1 \<noteq> sessionId q2"
  shows "k1 \<noteq> k2 \<and> t1 \<noteq> t2"
proof -
  from resolveOrCreate_ok[OF ok c1]
  have ok1: "registry_ok s1" and b1: "sessions s1 k1 = Some t1" and e1: "k1 = sessionId q1"
    by auto
  from resolveOrCreate_ok[OF ok1 c2]
  have ok2: "registry_ok s2" and b2: "sessions s2 k2 = Some t2" and e2: "k2 = sessionId q2"
    by auto
  from resolveOrCreate_keeps[OF c2 b1] have "sessions s2 k1 = Some t1" .
  with b2 ok2 ne e1 e2 show ?thesis unfolding registry_ok_def by blast
qed

lemma resolveOrCreate_again:
  assumes c1: "resolveOrCreate q1 s = Inr (k1, t1, s1)"
    and c2: "resolveOrCreate q2 s1 = Inr (k2, t2, s2)"
    and same: "sessionId q1 = sessionId q2"
  shows "k1 = k2 \<and> t1 = t2 \<and> s2 = s1"
  using assms unfolding resolveOrCreate_def Let_def
  by (auto split: option.splits if_splits)

lemma sessionId_no_header: "header q = None \<Longrightarrow> sessionId q = generated_id q"
  by (simp add: sessionId_def)

lemma sessionId_header: "header q = Some h \<Longrightarrow> h \<noteq> [] \<Longrightarrow> sessionId q = h"
  by (simp add: sessionId_def)

lemma generated_id_5: "generated_id (plain_request h 5 r) = ''session-5-'' @ r"
  by (simp add: generated_id_def plain_request_def decimal.simps digit_char_def)

lemma generated_id_6: "generated_id (plain_request h 6 r) = ''session-6-'' @ r"
  by (simp add: generated_id_def plain_request_def decimal.simps digit_char_def)

text \<open>
  Claim C2, as the code has it. Two calls without an identifier yield distinct keys and
  distinct transports when the two generated identifiers differ; two calls with the same
  non-empty identifier yield the same transport, and the second call leaves the server
  as it was. Both calls return when \<^verbatim>\<open>connect\<close> does not throw.
\<close>

theorem session_roundtrip:
  assumes ok: "registry_ok s"
    and c1: "connect_throws q1 = None" and c2: "connect_throws q2 = None"
  shows "\<exists>k1 t1 s1 k2 t2 s2.
           resolveOrCreate q1 s = Inr (k1, t1, s1) \<and> resolveOrCreate q2 s1 = Inr (k2, t2, s2) \<and>
           (header q1 = None \<and> header q2 = None \<and> generated_id q1 \<noteq> generated_id q2
              \<longrightarrow> k1 \<noteq> k2 \<and> t1 \<noteq> t2) \<and>
           (\<forall>h. header q1 = Some h \<and> header q2 = Some h \<and> h \<noteq> []
              \<longrightarrow> k1 = h \<and> k2 = h \<and> t1 = t2 \<and> s2 = s1)"
proof -
  from resolveOrCreate_returns[OF c1] obtain t1 s1
    where r1: "resolveOrCreate q1 s = Inr (sessionId q1, t1, s1)" by blast
  from resolveOrCreate_returns[OF c2] obtain t2 s2
    where r2: "resolveOrCreate q2 s1 = Inr (sessionId q2, t2, s2)" by blast
  have "header q1 = None \<and> header q2 = None \<and> generated_id q1 \<noteq> generated_id q2
          \<longrightarrow> sessionId q1 \<noteq> sessionId q2 \<and> t1 \<noteq> t2"
    using resolveOrCreate_distinct[OF ok r1 r2] by (simp add: sessionId_no_header)
  moreover have "\<forall>h. header q1 = Some h \<and> header q2 = Some h \<and> h \<noteq> []
          \<longrightarrow> sessionId q1 = h \<and> sessionId q2 = h \<and> t1 = t2 \<and> s2 = s1"
    using resolveOrCreate_again[OF r1 r2] by (auto simp add: sessionId_header)
  ultimately show ?thesis using r1 r2 by blast
qed

text \<open>The theorem at the starting server, with identifiers generated one millisecond apart.\<close>

theorem session_roundtrip_witness:
  "registry_ok startServer \<and>
   (\<exists>t1 s1 t2 s2.
      resolveOrCreate (plain_request None 5 ''k3x9'') startServer = Inr (''session-5-k3x9'', t1, s1) \<and>
      resolveOrCreate (plain_request None 6 ''k3x9'') s1 = Inr (''session-6-k3x9'', t2, s2) \<and>
      t1 \<noteq> t2) \<and>
   (\<exists>t1 s1 t2.
      resolveOrCreate (plain_request (Some ''abc'') 5 ''k3x9'') startServer = Inr (''abc'', t1, s1) \<and>
      resolveOrCreate (plain_request (Some ''abc'') 6 ''zzzz'') s1 = Inr (''abc'', t2, s1) \<and>
      t1 = t2)"
proof -
  have a: "connect_throws (plain_request h n r) = None" for h n r
    by (simp add: plain_request_def)
  have hd: "header (plain_request h n r) = h" for h n r
    by (simp add: plain_request_def)
  have ne: "generated_id (plain_request None 5 ''k3x9'') \<noteq> generated_id (plain_request None 6 ''k3x9'')"
    by (simp add: generated_id_5 generated_id_6)
  from session_roundtrip[OF registry_ok_startServer a a,
      of None 5 "''k3x9''" None 6 "''k3x9''"]
  obtain k1 t1 s1 k2 t2 s2 where
    r1: "resolveOrCreate (plain_request None 5 ''k3x9'') startServer = Inr (k1, t1, s1)" and
    r2: "resolveOrCreate (plain_request None 6 ''k3x9'') s1 = Inr (k2, t2, s2)" and
    d: "k1 \<noteq> k2 \<and> t1 \<noteq> t2"
    using ne by (auto simp add: hd)
  from resolveOrCreate_ok[OF registry_ok_startServer r1]
  have k1: "k1 = ''session-5-k3x9''" and ok1: "registry_ok s1"
    by (simp_all add: sessionId_no_header hd generated_id_5)
  from resolveOrCreate_ok[OF ok1 r2]
  have k2: "k2 = ''session-6-k3x9''"
    by (simp add: sessionId_no_header hd generated_id_6)
  from session_roundtrip[OF registry_ok_startServer a a,
      of "Some ''abc''" 5 "''k3x9''" "Some ''abc''" 6 "''zzzz''"]
  obtain u1 v1 u2 v2 where
    "resolveOrCreate (plain_request (Some ''abc'') 5 ''k3x9'') startServer = Inr (''abc'', u1, v1)" and
    "resolveOrCreate (plain_request (Some ''abc'') 6 ''zzzz'') v1 = Inr (''abc'', u2, v2)" and
    "u1 = u2 \<and> v2 = v1"
    by (auto simp add: hd)
  with r1 r2 d k1 k2 registry_ok_startServer show ?thesis by blast
qed

text \<open>
  Two calls without an identifier in the same millisecond that draw the same random
  text: the second call finds the binding of the first.
\<close>

theorem session_roundtrip_counterexample:
  "resolveOrCreate (plain_request None 5 ''k3x9'') startServer =
     Inr (''session-5-k3x9'', 0,
          \<lparr>sessions = [''session-5-k3x9'' \<mapsto> 0], constructed = 1,
           logged = [''Created new MCP session: session-5-k3x9'']\<rparr>) \<and>
   resolveOrCreate (plain_request None 5 ''k3x9'')
       \<lparr>sessions = [''session-5-k3x9'' \<mapsto> 0], constructed = 1,
        logged = [''Created new MCP session: session-5-k3x9'']\<rparr> =
     Inr (''session-5-k3x9'', 0,
          \<lparr>sessions = [''session-5-k3x9'' \<mapsto> 0], constructed = 1,
           logged = [''Created new MCP session: session-5-k3x9'']\<rparr>)"
  by (simp add: resolveOrCreate_def sessionId_def generated_id_def decimal.simps digit_char_def
      startServer_def plain_request_def Let_def)

section \<open>The route never throws\<close>






section \<open>The arithmetic of the calculator\<close>









subsection \<open>Rounding is exact on the doubles\<close>













subsection \<open>The calculate tool\<close>












section \<open>Validation\<close>

lemma validateToolArgs_issues:
  assumes "fst (schema [] args) \<noteq> []"
  shows "validateToolArgs schema args =
           Inl (Error (''Validation failed: '' @ join '', '' (map issue_text (fst (schema [] args)))))"
proof -
  obtain iss r where s: "schema [] args = (iss, r)" by (cases "schema [] args")
  with assms have "iss \<noteq> []" by simp
  then obtain i iss' where "iss = i # iss'" by (cases iss) auto
  with s show ?thesis by (simp add: validateToolArgs_def)
qed





















text \<open>
  Claim C6. In each of the four handlers that validate their arguments, the validation
  comes first: when the schema finds an issue, the handler ends with the error
  \<^verbatim>\<open>Validation failed: ...\<close> that lists the issues, nothing of what follows the
  validation is computed, and the world is as it was.
\<close>

theorem validation_precedes_handler:
  "(fst (SayHelloSchema [] args) \<noteq> [] \<longrightarrow>
      sayHello_validating args w =
        (Inl (Error (''Validation failed: ''
                     @ join '', '' (map issue_text (fst (SayHelloSchema [] args))))), w)) \<and>
   (fst (CalculateSchema [] args) \<noteq> [] \<longrightarrow>
      calculate_validating args w =
        (Inl (Error (''Validation failed: ''
                     @ join '', '' (map issue_text (fst (CalculateSchema [] args))))), w)) \<and>
   (fst (WeatherForecastSchema [] args) \<noteq> [] \<longrightarrow>
      getWeatherForecast args w =
        (Inl (Error (''Validation failed: ''
                     @ join '', '' (map issue_text (fst (WeatherForecastSchema [] args))))), w)) \<and>
   (fst (WeatherAlertsSchema [] args) \<noteq> [] \<longrightarrow>
      getWeatherAlerts args w =
        (Inl (Error (''Validation failed: ''
                     @ join '', '' (map issue_text (fst (WeatherAlertsSchema [] args))))), w))"
  by (simp add: validateToolArgs_issues sayHello_validating_def calculate_validating_def
      getWeatherForecast_def getWeatherAlerts_def)

lemma empty_name_issues:
  "fst (SayHelloSchema [] (Some (JObj [(''name'', JStr [])]))) = [Issue [''name''] ''Name is required'']"
  by code_simp

lemma divide_zero_issues:
  "fst (CalculateSchema [] (Some (JObj [(''operation'', JStr ''divide''), (''a'', JNum (Dbl 5 1)),
      (''b'', JNum (Dbl 0 0))]))) = [Issue [''b''] ''Division by zero is not allowed'']"
  by code_simp

lemma north_issues:
  "fst (WeatherForecastSchema [] (Some (JObj [(''latitude'', JNum (Dbl 91 0)),
      (''longitude'', JNum (Dbl 0 0))]))) = [Issue [''latitude''] ''Latitude must be between -90 and 90'']"
  by code_simp

lemma lowercase_issues:
  "fst (WeatherAlertsSchema [] (Some (JObj [(''state'', JStr ''ca'')])))
     = [Issue [''state''] ''State code must be 2 uppercase letters'']"
  by code_simp

text \<open>
  The theorem at an empty name, a division by zero, the latitude 91 and a state code in
  lower case.
\<close>

theorem validation_precedes_handler_witness:
  "fst (SayHelloSchema [] (Some (JObj [(''name'', JStr [])]))) \<noteq> [] \<and>
   sayHello_validating (Some (JObj [(''name'', JStr [])])) (constant_world (Dbl 0 0)) =
     (Inl (Error ''Validation failed: name: Name is required''), constant_world (Dbl 0 0)) \<and>
   fst (CalculateSchema [] (Some (JObj [(''operation'', JStr ''divide''), (''a'', JNum (Dbl 5 1)),
      (''b'', JNum (Dbl 0 0))]))) \<noteq> [] \<and>
   calculate_validating (Some (JObj [(''operation'', JStr ''divide''), (''a'', JNum (Dbl 5 1)),
      (''b'', JNum (Dbl 0 0))])) (constant_world (Dbl 0 0)) =
     (Inl (Error ''Validation failed: b: Division by zero is not allowed''), constant_world (Dbl 0 0)) \<and>
   fst (WeatherForecastSchema [] (Some (JObj [(''latitude'', JNum (Dbl 91 0)),
      (''longitude'', JNum (Dbl 0 0))]))) \<noteq> [] \<and>
   getWeatherForecast (Some (JObj [(''latitude'', JNum (Dbl 91 0)), (''longitude'', JNum (Dbl 0 0))]))
       (constant_world (Dbl 0 0)) =
     (Inl (Error ''Validation failed: latitude: Latitude must be between -90 and 90''),
      constant_world (Dbl 0 0)) \<and>
   fst (WeatherAlertsSchema [] (Some (JObj [(''state'', JStr ''ca'')]))) \<noteq> [] \<and>
   getWeatherAlerts (Some (JObj [(''state'', JStr ''ca'')])) (constant_world (Dbl 0 0)) =
     (Inl (Error ''Validation failed: state: State code must be 2 uppercase letters''),
      constant_world (Dbl 0 0))"
  using validation_precedes_handler[of "Some (JObj [(''name'', JStr [])])" "constant_world (Dbl 0 0)"]
    validation_precedes_handler[of "Some (JObj [(''operation'', JStr ''divide''), (''a'', JNum (Dbl 5 1)),
      (''b'', JNum (Dbl 0 0))])" "constant_world (Dbl 0 0)"]
    validation_precedes_handler[of "Some (JObj [(''latitude'', JNum (Dbl 91 0)),
      (''longitude'', JNum (Dbl 0 0))])" "constant_world (Dbl 0 0)"]
    validation_precedes_handler[of "Some (JObj [(''state'', JStr ''ca'')])" "constant_world (Dbl 0 0)"]
  by (simp add: empty_name_issues divide_zero_issues north_issues lowercase_issues issue_text_def)





section \<open>Unknown tools, resources and lists\<close>





text \<open>
  Claim C7, on src/server.ts. Its \<^verbatim>\<open>createMCPServer\<close> registers no resource, so the
  table has no entry for \<^verbatim>\<open>mcp://server-info\<close> and reading it finds nothing.
\<close>

theorem server_info_not_registered:
  "resources createMCPServer = [] \<and>
   list_resources createMCPServer = [] \<and>
   read_resource createMCPServer ''mcp://server-info'' w = None"
  by (simp add: createMCPServer_def registerWeatherTools_def registerTool_def McpServer_def
      read_resource_def get_resource_def list_resources_def)

lemma server_info_fields:
  "\<exists>kvs. server_info created = JObj kvs \<and>
     map_of kvs ''name'' = Some (JStr ''ts-template-mcp-server'') \<and>
     map_of kvs ''version'' = Some (JStr ''1.0.0'')"
  by (simp add: server_info_def)

lemma server_info_validating_fields:
  "\<exists>kvs. server_info_validating created = JObj kvs \<and>
     map_of kvs ''name'' = Some (JStr ''ts-template-mcp-server'') \<and>
     map_of kvs ''version'' = Some (JStr ''1.0.0'')"
  by (simp add: server_info_validating_def)

text \<open>
  The two other servers answer the same read with one JSON text: the encoding of an
  object that has the fields \<^verbatim>\<open>name\<close> and \<^verbatim>\<open>version\<close>.
\<close>

theorem server_info_read_elsewhere:
  "(\<exists>kvs. resources_read ''mcp://server-info'' w =
            Inr [\<lparr>content_uri = ''mcp://server-info'', content_mimeType = ''application/json'',
                  content_text = JSON_stringify (JObj kvs)\<rparr>] \<and>
          map_of kvs ''name'' = Some (JStr ''ts-template-mcp-server'') \<and>
          map_of kvs ''version'' = Some (JStr ''1.0.0'')) \<and>
   (\<exists>kvs. read_resource createMCPServer_validating ''mcp://server-info'' w =
            Some [\<lparr>content_uri = ''mcp://server-info'', content_mimeType = ''application/json'',
                   content_text = JSON_stringify (JObj kvs)\<rparr>] \<and>
          map_of kvs ''name'' = Some (JStr ''ts-template-mcp-server'') \<and>
          map_of kvs ''version'' = Some (JStr ''1.0.0''))"
proof -
  from server_info_fields[of "iso_time w"] obtain kvs where
    k: "server_info (iso_time w) = JObj kvs"
    "map_of kvs ''name'' = Some (JStr ''ts-template-mcp-server'')"
    "map_of kvs ''version'' = Some (JStr ''1.0.0'')" by blast
  from server_info_validating_fields[of "iso_time w"] obtain kvs' where
    k': "server_info_validating (iso_time w) = JObj kvs'"
    "map_of kvs' ''name'' = Some (JStr ''ts-template-mcp-server'')"
    "map_of kvs' ''version'' = Some (JStr ''1.0.0'')" by blast
  have "resources_read ''mcp://server-info'' w =
            Inr [\<lparr>content_uri = ''mcp://server-info'', content_mimeType = ''application/json'',
                  content_text = JSON_stringify (JObj kvs)\<rparr>]"
    by (simp add: resources_read_def k(1))
  moreover have "read_resource createMCPServer_validating ''mcp://server-info'' w =
            Some [\<lparr>content_uri = ''mcp://server-info'', content_mimeType = ''application/json'',
                   content_text = JSON_stringify (JObj kvs')\<rparr>]"
    by (simp add: createMCPServer_validating_def registerWeatherTools_def registerTool_def
        registerResource_def McpServer_def read_resource_def get_resource_def read_server_info_def k'(1))
  ultimately show ?thesis using k k' by blast
qed


section \<open>Determinism\<close>

lemma forecast_differs:
  "fst (getWeatherForecast (Some (JObj [(''latitude'', JNum (Dbl 0 0)), (''longitude'', JNum (Dbl 0 0))]))
          (constant_world (Dbl 0 0)))
   \<noteq> fst (getWeatherForecast (Some (JObj [(''latitude'', JNum (Dbl 0 0)), (''longitude'', JNum (Dbl 0 0))]))
          (constant_world (Dbl 1 (- 1))))"
  by code_simp

text \<open>
  Claim C10. The handlers of \<^verbatim>\<open>sayHello\<close> and \<^verbatim>\<open>calculate\<close>, in each server, return the same
  result for the same arguments in every world, and leave the world as it was: nothing
  is drawn and the clock is not read. The forecast differs between two worlds that
  differ in what \<^verbatim>\<open>Math.random()\<close> returns.
\<close>

theorem handlers_deterministic:
  "fst (sayHello name w) = fst (sayHello name w') \<and> snd (sayHello name w) = w \<and>
   fst (calculate triple w) = fst (calculate triple w') \<and> snd (calculate triple w) = w \<and>
   fst (sayHello_validating args w) = fst (sayHello_validating args w') \<and>
   snd (sayHello_validating args w) = w \<and>
   fst (calculate_validating args w) = fst (calculate_validating args w') \<and>
   snd (calculate_validating args w) = w \<and>
   fst (handle_message (ToolsCall tool args) w) = fst (handle_message (ToolsCall tool args) w') \<and>
   snd (handle_message (ToolsCall tool args) w) = w \<and>
   fst (getWeatherForecast (Some (JObj [(''latitude'', JNum (Dbl 0 0)), (''longitude'', JNum (Dbl 0 0))]))
          (constant_world (Dbl 0 0)))
   \<noteq> fst (getWeatherForecast (Some (JObj [(''latitude'', JNum (Dbl 0 0)), (''longitude'', JNum (Dbl 0 0))]))
          (constant_world (Dbl 1 (- 1))))"
proof -
  have c: "fst (calculate triple w) = fst (calculate triple w') \<and> snd (calculate triple w) = w"
    by (cases triple) (simp add: calculate_def split: sum.splits)
  have v: "fst (calculate_validating args w) = fst (calculate_validating args w') \<and>
    snd (calculate_validating args w) = w"
    by (simp add: calculate_validating_def split: sum.splits prod.splits)
  have s: "fst (sayHello_validating args w) = fst (sayHello_validating args w') \<and>
    snd (sayHello_validating args w) = w"
    by (simp add: sayHello_validating_def split: sum.splits)
  have h: "fst (handle_message (ToolsCall tool args) w) = fst (handle_message (ToolsCall tool args) w') \<and>
    snd (handle_message (ToolsCall tool args) w) = w"
    by (simp add: handle_message_def)
  from c v s h forecast_differs show ?thesis by (simp add: sayHello_def)
qed

end
